theory Spec2Isabelle
  imports Main
begin

section \<open>The data of \<open>abstract.directive.ts\<close>\<close>

text \<open>
  The class \<open>AbstractDirective\<close> binds one DOM element, holds a reference to the
  process-wide \<open>DragDropService\<close> and to the \<open>DragDropConfig\<close>, and registers
  seven native event handlers on the element. The model keeps that shape: DOM nodes
  are identifiers, the part of the document the handlers read (\<open>parentElement\<close>,
  \<open>contains\<close>) or change (\<open>removeChild\<close>, \<open>style.cursor\<close>, \<open>draggable\<close>) is explicit
  state, and every handler is a function from the state and the event to the new
  state and the event as the handler leaves it.
\<close>

type_synonym node = nat

text \<open>
  \<open>DataTransfer\<close>: \<open>files\<close> is \<open>None\<close> when the property is undefined or null and
  \<open>Some fs\<close> when it is a \<open>FileList\<close> object holding the files \<open>fs\<close> (an empty
  \<open>FileList\<close> is an object, hence truthy). \<open>written\<close> lists the
  \<open>(format, data)\<close> pairs passed to \<open>setData\<close>, oldest first.
\<close>

record dataTransfer =
  dropEffect :: string
  written :: "(string \<times> string) list"
  files :: "string list option"

text \<open>
  A native event. \<open>dataTransfer\<close> is \<open>None\<close> for an event that has no such
  property and for a \<open>DragEvent\<close> whose \<open>dataTransfer\<close> is null.
  \<open>defaultPrevented\<close> and \<open>propagationStopped\<close> record that
  \<open>preventDefault()\<close> and \<open>stopPropagation()\<close> were called.
\<close>

record event =
  eventTarget :: "node option"
  dataTransfer :: "dataTransfer option"
  defaultPrevented :: bool
  propagationStopped :: bool

text \<open>
  Modelled from the spec: the class \<open>DragDropService\<close> is not among the sources.
  The spec's \<open>DragSession\<close> holds whether a drag is active (\<open>isDragged\<close>), the
  payload being dragged (\<open>dragData\<close>, of any type) and the ordered sequence of
  eligible zone identifiers (\<open>allowedDropZones\<close>); these are the three members the
  directive reads or writes.
\<close>

record 'p dragDropService =
  isDragged :: bool
  dragData :: 'p
  allowedDropZones :: "string list"

text \<open>
  Modelled from the spec: the class \<open>DragDropConfig\<close> is not among the sources. The
  spec's configuration supplies \<open>defaultCursor: string\<close> and
  \<open>dropEffect: { name: string }\<close>.
\<close>

record dragDropConfig =
  config_defaultCursor :: string
  config_dropEffect_name :: string

text \<open>
  The view reference \<open>cdr\<close>, read through the cast \<open>(this.cdr as ViewRef)\<close>: of
  the framework's object the directive reads \<open>destroyed\<close> only.
\<close>

record viewRef =
  destroyed :: bool

datatype callback =
  DragEnterCallback | DragOverCallback | DragLeaveCallback
  | DropCallback | DragStartCallback | DragEndCallback

datatype task = RefreshView

text \<open>
  What the directive calls outside itself and outside the DOM: one of its six
  overridable callbacks (with the event as it is at the call), \<open>setTimeout\<close> (with
  its delay), and \<open>cdr.detectChanges()\<close>.
\<close>

datatype outcall = Hook callback event | SetTimeout nat | CdrDetectChanges

datatype domException = NotFoundError

text \<open>
  The directive with its collaborators. \<open>document\<close> lists the \<open>(child, parent)\<close>
  links of the DOM tree; \<open>timers\<close> holds the pending \<open>setTimeout\<close> tasks with the
  time each still has to wait; \<open>trace\<close> is the list of outcalls made so far. The
  input \<open>dragImage\<close> is never read by this class and is left out.
\<close>

record 'p world =
  element :: node
  dragHandle :: "node option"
  dragHelper :: "node option"
  defaultCursor :: string
  target :: "node option"
  dragEnabled :: bool
  dropEnabled :: bool
  effectAllowed :: "string option"
  effectCursor :: "string option"
  dropZones :: "string list"
  allowDrop :: "('p \<Rightarrow> bool) option"
  cloneItem :: bool
  dragDropService :: "'p dragDropService"
  config :: dragDropConfig
  cdr :: "viewRef option"
  document :: "(node \<times> node) list"
  styleCursor :: "node \<Rightarrow> string"
  draggable :: "node \<Rightarrow> bool"
  timers :: "(nat \<times> task) list"
  trace :: "outcall list"

section \<open>The filtering predicate\<close>

text \<open>
  Modelled from the spec: the helper \<open>isPresent\<close> of \<open>../../util\<close> is not among the
  sources. The spec reads \<open>isPresent(x)\<close> as "\<open>x\<close> is set" or "\<open>x\<close> is
  configured": the value is neither undefined nor null. Optional values are
  \<open>option\<close>s, and \<open>the\<close> reads one only where the source has tested it.
\<close>

definition isPresent :: "'a option \<Rightarrow> bool" where
  "isPresent x = (x \<noteq> None)"

text \<open>\<open>Array.prototype.indexOf\<close>: the first index of \<open>x\<close>, or \<open>-1\<close>.\<close>

fun indexOf :: "'a list \<Rightarrow> 'a \<Rightarrow> int" where
  "indexOf [] x = - 1"
| "indexOf (y # ys) x =
     (if y = x then 0
      else (let i = indexOf ys x in if i = - 1 then - 1 else i + 1))"

text \<open>
  The loop \<open>for (const dropZone of allowedDropZones)\<close> of lines 182 to 186: it
  returns true at the first zone found in \<open>dropZones\<close>; when it runs out, control
  reaches the final \<open>return false\<close>.
\<close>

fun zoneLoop :: "string list \<Rightarrow> string list \<Rightarrow> bool" where
  "zoneLoop own [] = False"
| "zoneLoop own (dropZone # rest) =
     (if indexOf own dropZone \<noteq> - 1 then True else zoneLoop own rest)"

text \<open>The test \<open>event.dataTransfer && event.dataTransfer.files\<close>, read as a boolean.\<close>

definition filesTruthy :: "event \<Rightarrow> bool" where
  "filesTruthy ev =
     (case dataTransfer ev of None \<Rightarrow> False | Some dt \<Rightarrow> files dt \<noteq> None)"

definition isDropAllowed :: "'p world \<Rightarrow> event \<Rightarrow> bool" where
  "isDropAllowed w ev =
     (if (isDragged (dragDropService w) \<or> filesTruthy ev) \<and> dropEnabled w then
        (if isPresent (allowDrop w) then (the (allowDrop w)) (dragData (dragDropService w))
         else if length (dropZones w) = 0
                 \<and> length (allowedDropZones (dragDropService w)) = 0
         then True
         else zoneLoop (dropZones w) (allowedDropZones (dragDropService w)))
      else False)"

text \<open>
  The spec's wording of the second gate condition, "the native event carries file
  data": the event has a transfer object whose file list holds at least one file.
\<close>

definition carriesFileData :: "event \<Rightarrow> bool" where
  "carriesFileData ev =
     (case dataTransfer ev of
        None \<Rightarrow> False
      | Some dt \<Rightarrow> (case files dt of None \<Rightarrow> False | Some fs \<Rightarrow> fs \<noteq> []))"

section \<open>The DOM operations the handlers use\<close>

text \<open>
  \<open>Event.prototype.preventDefault\<close> and \<open>stopPropagation\<close> are defined for every
  \<open>Event\<close>, so the tests \<open>isPresent(event.preventDefault)\<close>,
  \<open>if (event.preventDefault)\<close> and \<open>if (event.stopPropagation)\<close> of lines 130, 198
  and 202 hold for every event the handlers are typed for.
\<close>

definition hasPreventDefault :: "event \<Rightarrow> bool" where
  "hasPreventDefault ev = True"

definition hasStopPropagation :: "event \<Rightarrow> bool" where
  "hasStopPropagation ev = True"

definition preventDefault :: "event \<Rightarrow> event" where
  "preventDefault ev = ev\<lparr>defaultPrevented := True\<rparr>"

definition stopPropagation :: "event \<Rightarrow> event" where
  "stopPropagation ev = ev\<lparr>propagationStopped := True\<rparr>"

definition setData :: "string \<Rightarrow> string \<Rightarrow> dataTransfer \<Rightarrow> dataTransfer" where
  "setData format d dt = dt\<lparr>written := written dt @ [(format, d)]\<rparr>"

definition parentElement :: "(node \<times> node) list \<Rightarrow> node \<Rightarrow> node option" where
  "parentElement doc n = map_of doc n"

text \<open>
  \<open>a.contains(b)\<close>: \<open>b\<close> is \<open>a\<close> or a descendant of \<open>a\<close>; false for a null or
  undefined argument. The walk up from \<open>b\<close> takes at most one step per link of the
  document.
\<close>

fun containsWithin :: "nat \<Rightarrow> (node \<times> node) list \<Rightarrow> node \<Rightarrow> node \<Rightarrow> bool" where
  "containsWithin 0 doc a b = (a = b)"
| "containsWithin (Suc k) doc a b =
     (a = b \<or> (case map_of doc b of None \<Rightarrow> False | Some p \<Rightarrow> containsWithin k doc a p))"

definition contains :: "(node \<times> node) list \<Rightarrow> node \<Rightarrow> node option \<Rightarrow> bool" where
  "contains doc a other =
     (case other of None \<Rightarrow> False | Some b \<Rightarrow> containsWithin (length doc) doc a b)"

text \<open>
  \<open>p.removeChild(c)\<close> detaches \<open>c\<close> from \<open>p\<close>, and throws a \<open>NotFoundError\<close>
  \<open>DOMException\<close> when \<open>c\<close> is not a child of \<open>p\<close>.
\<close>

definition removeChild ::
  "node \<Rightarrow> node \<Rightarrow> (node \<times> node) list \<Rightarrow> domException + (node \<times> node) list" where
  "removeChild p c doc =
     (if map_of doc c = Some p then Inr (filter (\<lambda>link. fst link \<noteq> c) doc)
      else Inl NotFoundError)"

definition setTimeout :: "task \<Rightarrow> nat \<Rightarrow> 'p world \<Rightarrow> 'p world" where
  "setTimeout t delay w =
     w\<lparr>timers := timers w @ [(delay, t)], trace := trace w @ [SetTimeout delay]\<rparr>"

section \<open>The six callbacks\<close>

text \<open>
  Each callback of the class is a no-op (\<open>/* noop */\<close>); the model adds the call to
  the trace, so that a theorem can say which callback ran, how often and with which
  event.
\<close>

definition callback :: "callback \<Rightarrow> event \<Rightarrow> 'p world \<Rightarrow> 'p world" where
  "callback c ev w = w\<lparr>trace := trace w @ [Hook c ev]\<rparr>"

definition dragEnterCallback :: "event \<Rightarrow> 'p world \<Rightarrow> 'p world" where
  "dragEnterCallback = callback DragEnterCallback"

definition dragOverCallback :: "event \<Rightarrow> 'p world \<Rightarrow> 'p world" where
  "dragOverCallback = callback DragOverCallback"

definition dragLeaveCallback :: "event \<Rightarrow> 'p world \<Rightarrow> 'p world" where
  "dragLeaveCallback = callback DragLeaveCallback"

definition dropCallback :: "event \<Rightarrow> 'p world \<Rightarrow> 'p world" where
  "dropCallback = callback DropCallback"

definition dragStartCallback :: "event \<Rightarrow> 'p world \<Rightarrow> 'p world" where
  "dragStartCallback = callback DragStartCallback"

definition dragEndCallback :: "event \<Rightarrow> 'p world \<Rightarrow> 'p world" where
  "dragEndCallback = callback DragEndCallback"

section \<open>The methods of the directive\<close>

text \<open>The arrow function handed to \<open>setTimeout\<close> in \<open>detectChanges\<close> (lines 115 to 119).\<close>

definition refreshView :: "'p world \<Rightarrow> 'p world" where
  "refreshView w =
     (case cdr w of
        None \<Rightarrow> w
      | Some v \<Rightarrow> if \<not> destroyed v then w\<lparr>trace := trace w @ [CdrDetectChanges]\<rparr> else w)"

definition detectChanges :: "'p world \<Rightarrow> 'p world" where
  "detectChanges w = setTimeout RefreshView 250 w"

definition preventAndStop :: "event \<Rightarrow> event" where
  "preventAndStop ev =
     (let ev1 = (if hasPreventDefault ev then preventDefault ev else ev)
      in if hasStopPropagation ev1 then stopPropagation ev1 else ev1)"

definition dragEnter :: "'p world \<Rightarrow> event \<Rightarrow> 'p world \<times> event" where
  "dragEnter w ev =
     (if isDropAllowed w ev then (dragEnterCallback ev w, ev) else (w, ev))"

definition dragOver :: "'p world \<Rightarrow> event \<Rightarrow> 'p world \<times> event" where
  "dragOver w ev =
     (if isDropAllowed w ev then
        (let ev1 = (if hasPreventDefault ev then preventDefault ev else ev)
         in (dragOverCallback ev1 w, ev1))
      else (w, ev))"

definition dragLeave :: "'p world \<Rightarrow> event \<Rightarrow> 'p world \<times> event" where
  "dragLeave w ev =
     (if isDropAllowed w ev then (dragLeaveCallback ev w, ev) else (w, ev))"

definition drop_event :: "'p world \<Rightarrow> event \<Rightarrow> 'p world \<times> event" where
  "drop_event w ev =
     (if isDropAllowed w ev then
        (let ev1 = preventAndStop ev
         in (detectChanges (dropCallback ev1 w), ev1))
      else (w, ev))"

definition dragStart :: "'p world \<Rightarrow> event \<Rightarrow> 'p world" where
  "dragStart w ev =
     (if dragEnabled w then
        dragStartCallback ev
          (w\<lparr>dragDropService := (dragDropService w)\<lparr>allowedDropZones := dropZones w\<rparr>\<rparr>)
      else w)"

definition dragEnd :: "'p world \<Rightarrow> event \<Rightarrow> 'p world" where
  "dragEnd w ev =
     dragEndCallback ev (w\<lparr>dragDropService := (dragDropService w)\<lparr>allowedDropZones := []\<rparr>\<rparr>)"

definition set_dragEnabled :: "bool \<Rightarrow> 'p world \<Rightarrow> 'p world" where
  "set_dragEnabled v w =
     w\<lparr>dragEnabled := v, draggable := (draggable w)(element w := v)\<rparr>"

definition set_dragHandle :: "node option \<Rightarrow> 'p world \<Rightarrow> 'p world" where
  "set_dragHandle v w = w\<lparr>dragHandle := v\<rparr>"

section \<open>The handlers registered by the constructor\<close>

definition ondragenter :: "'p world \<Rightarrow> event \<Rightarrow> 'p world \<times> event" where
  "ondragenter = dragEnter"

definition ondragleave :: "'p world \<Rightarrow> event \<Rightarrow> 'p world \<times> event" where
  "ondragleave = dragLeave"

definition ondrop :: "'p world \<Rightarrow> event \<Rightarrow> 'p world \<times> event" where
  "ondrop = drop_event"

text \<open>The third component is the value the handler returns to the browser.\<close>

definition ondragover :: "'p world \<Rightarrow> event \<Rightarrow> 'p world \<times> event \<times> bool" where
  "ondragover w ev =
     (case dragOver w ev of
        (w1, ev1) \<Rightarrow>
          (w1,
           (if isPresent (dataTransfer ev1) then
              ev1\<lparr>dataTransfer :=
                Some (setData ''text'' ''''
                  ((the (dataTransfer ev1))
                     \<lparr>dropEffect := config_dropEffect_name (config w1)\<rparr>))\<rparr>
            else ev1),
           False))"

definition onmousedown :: "'p world \<Rightarrow> event \<Rightarrow> 'p world" where
  "onmousedown w ev = w\<lparr>target := eventTarget ev\<rparr>"

text \<open>
  The handler of \<open>dragstart\<close>: the early return of lines 64 to 69, then lines 71
  to 76.
\<close>

definition ondragstart :: "'p world \<Rightarrow> event \<Rightarrow> 'p world \<times> event" where
  "ondragstart w ev =
     (if isPresent (dragHandle w)
         \<and> \<not> contains (document w) (the (dragHandle w)) (target w)
      then (w, preventDefault ev)
      else
        (dragStart w ev,
         (if isPresent (dataTransfer ev) then
            ev\<lparr>dataTransfer := Some (setData ''text'' '''' (the (dataTransfer ev)))\<rparr>
          else ev)))"

text \<open>
  The handler of \<open>dragend\<close>. The call of \<open>removeChild\<close> is its first statement, so
  an exception thrown there leaves the handler before \<open>dragEnd\<close> runs: the result is
  \<open>Inl\<close> of the exception and nothing of the state has changed.
\<close>

definition restoreCursor :: "'p world \<Rightarrow> 'p world" where
  "restoreCursor w =
     (let cursorElem = (case dragHandle w of Some h \<Rightarrow> h | None \<Rightarrow> element w)
      in w\<lparr>styleCursor := (styleCursor w)(cursorElem := defaultCursor w)\<rparr>)"

definition ondragend :: "'p world \<Rightarrow> event \<Rightarrow> domException + 'p world" where
  "ondragend w ev =
     (case (parentElement (document w) (element w), dragHelper w) of
        (Some p, Some h) \<Rightarrow>
          (case removeChild p h (document w) of
             Inl e \<Rightarrow> Inl e
           | Inr doc \<Rightarrow> Inr (restoreCursor (dragEnd (w\<lparr>document := doc\<rparr>) ev)))
      | _ \<Rightarrow> Inr (restoreCursor (dragEnd w ev)))"

text \<open>
  The constructor: the fields with their initialisers, \<open>defaultCursor\<close> copied from
  the configuration and written to the element's style.
\<close>

definition construct ::
  "node \<Rightarrow> 'p dragDropService \<Rightarrow> dragDropConfig \<Rightarrow> viewRef option
   \<Rightarrow> (node \<times> node) list \<Rightarrow> (node \<Rightarrow> string) \<Rightarrow> (node \<Rightarrow> bool) \<Rightarrow> 'p world" where
  "construct nativeElement svc cfg ref doc styles drg =
     \<lparr>element = nativeElement, dragHandle = None, dragHelper = None,
      defaultCursor = config_defaultCursor cfg, target = None,
      dragEnabled = True, dropEnabled = False,
      effectAllowed = None, effectCursor = None, dropZones = [],
      allowDrop = None, cloneItem = False,
      dragDropService = svc, config = cfg, cdr = ref,
      document = doc,
      styleCursor = styles(nativeElement := config_defaultCursor cfg),
      draggable = drg, timers = [], trace = []\<rparr>"

section \<open>Timers\<close>

text \<open>
  \<open>elapse d\<close> lets \<open>d\<close> milliseconds pass: the tasks whose delay is over run, in the
  order they were scheduled, the others wait \<open>d\<close> less.
\<close>

fun runTask :: "task \<Rightarrow> 'p world \<Rightarrow> 'p world" where
  "runTask RefreshView w = refreshView w"

definition elapse :: "nat \<Rightarrow> 'p world \<Rightarrow> 'p world" where
  "elapse d w =
     fold (\<lambda>entry. runTask (snd entry))
       (filter (\<lambda>entry. fst entry \<le> d) (timers w))
       (w\<lparr>timers := map (\<lambda>entry. (fst entry - d, snd entry))
                      (filter (\<lambda>entry. \<not> fst entry \<le> d) (timers w))\<rparr>)"

section \<open>Reading a trace, and the spec's wording of two conditions\<close>

fun hookCalls :: "outcall list \<Rightarrow> (callback \<times> event) list" where
  "hookCalls [] = []"
| "hookCalls (Hook c ev # rest) = (c, ev) # hookCalls rest"
| "hookCalls (SetTimeout d # rest) = hookCalls rest"
| "hookCalls (CdrDetectChanges # rest) = hookCalls rest"

text \<open>
  The spec's "the native transfer payload is marked non-empty": the event has a
  transfer object and \<open>setData\<close> has been called on it.
\<close>

definition transferMarked :: "event \<Rightarrow> bool" where
  "transferMarked ev =
     (case dataTransfer ev of None \<Rightarrow> False | Some dt \<Rightarrow> written dt \<noteq> [])"

section \<open>Concrete elements and events\<close>

text \<open>
  A small page: node 0 contains the element 1 and a preview node 4; the element
  contains a handle 2 (with a child 3) and a node 5 outside the handle.
\<close>

definition pageDocument :: "(node \<times> node) list" where
  "pageDocument = [(1, 0), (2, 1), (3, 2), (5, 1), (4, 0)]"

definition pageConfig :: dragDropConfig where
  "pageConfig = \<lparr>config_defaultCursor = ''pointer'', config_dropEffect_name = ''move''\<rparr>"

definition idleService :: "nat dragDropService" where
  "idleService = \<lparr>isDragged = False, dragData = 0, allowedDropZones = []\<rparr>"

definition activeService :: "nat dragDropService" where
  "activeService = \<lparr>isDragged = True, dragData = 7, allowedDropZones = [''b'', ''c'']\<rparr>"

definition liveView :: viewRef where
  "liveView = \<lparr>destroyed = False\<rparr>"

definition deadView :: viewRef where
  "deadView = \<lparr>destroyed = True\<rparr>"

definition freshDirective :: "nat dragDropService \<Rightarrow> nat world" where
  "freshDirective svc =
     construct 1 svc pageConfig (Some liveView) pageDocument (\<lambda>n. ''grabbing'') (\<lambda>n. False)"

text \<open>A drop target advertising the zones a and b, during a drag eligible for b and c.\<close>

definition zoneTarget :: "nat world" where
  "zoneTarget = (freshDirective activeService)\<lparr>dropEnabled := True, dropZones := [''a'', ''b'']\<rparr>"

text \<open>A drop target without zones, while no drag of the service is active.\<close>

definition openTarget :: "nat world" where
  "openTarget = (freshDirective idleService)\<lparr>dropEnabled := True\<rparr>"

text \<open>A drag source advertising the zone x, with a preview node and with a handle.\<close>

definition dragSource :: "nat world" where
  "dragSource = (freshDirective idleService)\<lparr>dropZones := [''x''], dragHelper := Some 4\<rparr>"

definition handleSource :: "nat world" where
  "handleSource = (freshDirective idleService)\<lparr>dropZones := [''x''], dragHandle := Some 2\<rparr>"

text \<open>A drag source that has left the document while its preview node is still there.\<close>

definition detachedSource :: "nat world" where
  "detachedSource = dragSource\<lparr>document := [(4, 0)]\<rparr>"

text \<open>
  An event without a transfer object (a synthetic \<open>DragEvent\<close>), and a native drag
  event of a drag that carries no file: its \<open>files\<close> is an empty \<open>FileList\<close>.
\<close>

definition bareEvent :: event where
  "bareEvent = \<lparr>eventTarget = Some 1, dataTransfer = None,
                 defaultPrevented = False, propagationStopped = False\<rparr>"

definition emptyTransfer :: dataTransfer where
  "emptyTransfer = \<lparr>dropEffect = ''none'', written = [], files = Some []\<rparr>"

definition nativeEvent :: event where
  "nativeEvent = bareEvent\<lparr>dataTransfer := Some emptyTransfer\<rparr>"

text \<open>
  Two gestures on \<open>dragSource\<close>: the state after the first drag-end, and the state
  in which the drag-end of the second gesture arrives.
\<close>

definition afterFirstDrag :: "nat world" where
  "afterFirstDrag =
     (case ondragend (fst (ondragstart dragSource nativeEvent)) bareEvent of
        Inr w \<Rightarrow> w
      | Inl e \<Rightarrow> dragSource)"

definition secondDrag :: "nat world" where
  "secondDrag = fst (ondragstart afterFirstDrag nativeEvent)"

section \<open>Zone matching\<close>

lemma indexOf_lower: "- 1 \<le> indexOf xs x"
  by (induction xs) (auto simp: Let_def)

lemma indexOf_found: "(indexOf xs x \<noteq> - 1) = (x \<in> set xs)"
proof (induction xs)
  case Nil
  then show ?case by simp
next
  case (Cons y ys)
  have "indexOf ys x + 1 \<noteq> - 1"
    using indexOf_lower [of ys x] by arith
  with Cons show ?case by (auto simp: Let_def)
qed

lemma zoneLoop_member: "zoneLoop own zs = (\<exists>z \<in> set zs. z \<in> set own)"
  by (induction zs) (auto simp: indexOf_found)

lemmas page_defs =
  zoneTarget_def openTarget_def dragSource_def handleSource_def detachedSource_def
  freshDirective_def construct_def activeService_def idleService_def pageConfig_def
  pageDocument_def liveView_def deadView_def bareEvent_def nativeEvent_def
  emptyTransfer_def

text \<open>
  C1. With \<open>dropEnabled\<close> true, a drag session active and no \<open>allowDrop\<close>
  predicate, \<open>isDropAllowed\<close> returns true when \<open>dropZones\<close> and the service's
  \<open>allowedDropZones\<close> are both empty, and otherwise returns true exactly when some
  identifier of \<open>allowedDropZones\<close> occurs in \<open>dropZones\<close>. The condition speaks of
  the sets of identifiers only, so order and duplicates play no part.
\<close>

theorem isDropAllowed_zone_matching:
  assumes "dropEnabled w" and "isDragged (dragDropService w)" and "allowDrop w = None"
  shows "isDropAllowed w ev =
           (if dropZones w = [] \<and> allowedDropZones (dragDropService w) = [] then True
            else set (allowedDropZones (dragDropService w)) \<inter> set (dropZones w) \<noteq> {})"
  using assms by (auto simp add: isDropAllowed_def isPresent_def zoneLoop_member)

text \<open>
  The spec's examples: own zones a, b against eligible zones b, c pass, against c, d
  they fail, and a target without zones passes a drag without zones.
\<close>

theorem isDropAllowed_zone_matching_witness:
  "isDropAllowed zoneTarget bareEvent
   \<and> \<not> isDropAllowed
         (zoneTarget\<lparr>dragDropService := activeService\<lparr>allowedDropZones := [''c'', ''d'']\<rparr>\<rparr>)
         bareEvent
   \<and> isDropAllowed
         (zoneTarget\<lparr>dropZones := [],
            dragDropService := activeService\<lparr>allowedDropZones := []\<rparr>\<rparr>)
         bareEvent"
  using
    isDropAllowed_zone_matching [of zoneTarget bareEvent]
    isDropAllowed_zone_matching
      [of "zoneTarget\<lparr>dragDropService := activeService\<lparr>allowedDropZones := [''c'', ''d'']\<rparr>\<rparr>"
          bareEvent]
    isDropAllowed_zone_matching
      [of "zoneTarget\<lparr>dropZones := [],
             dragDropService := activeService\<lparr>allowedDropZones := []\<rparr>\<rparr>"
          bareEvent]
  by (simp add: page_defs)

section \<open>The \<open>allowDrop\<close> predicate\<close>

text \<open>
  C2. When \<open>allowDrop\<close> is set and the gate passes (\<open>dropEnabled\<close>, and a drag
  session is active or the test \<open>event.dataTransfer && event.dataTransfer.files\<close>
  holds, which it does whenever the event carries a file), \<open>isDropAllowed\<close>
  returns the predicate's value at the session's \<open>dragData\<close>, whatever \<open>dropZones\<close>
  and \<open>allowedDropZones\<close> are.
\<close>

theorem allowDrop_is_authoritative:
  assumes "allowDrop w = Some f" and "dropEnabled w"
    and "isDragged (dragDropService w) \<or> filesTruthy ev"
  shows "isDropAllowed
           (w\<lparr>dropZones := own,
              dragDropService := (dragDropService w)\<lparr>allowedDropZones := eligible\<rparr>\<rparr>) ev
         = f (dragData (dragDropService w))"
  using assms by (auto simp add: isDropAllowed_def isPresent_def)

text \<open>
  Zones a, b against b, c would match, and the predicate's false wins; zones a, b
  against c, d would not match, and the predicate's true wins.
\<close>

theorem allowDrop_is_authoritative_witness:
  "\<not> isDropAllowed
       (zoneTarget\<lparr>allowDrop := Some (\<lambda>d. d < 5), dropZones := [''a'', ''b''],
          dragDropService := activeService\<lparr>allowedDropZones := [''b'', ''c'']\<rparr>\<rparr>)
       bareEvent
   \<and> isDropAllowed
       (zoneTarget\<lparr>allowDrop := Some (\<lambda>d. 5 < d), dropZones := [''a'', ''b''],
          dragDropService := activeService\<lparr>allowedDropZones := [''c'', ''d'']\<rparr>\<rparr>)
       bareEvent"
  using
    allowDrop_is_authoritative
      [where w = "zoneTarget\<lparr>allowDrop := Some (\<lambda>d. d < 5)\<rparr>" and f = "\<lambda>d. d < 5"
         and ev = bareEvent and own = "[''a'', ''b'']" and eligible = "[''b'', ''c'']"]
    allowDrop_is_authoritative
      [where w = "zoneTarget\<lparr>allowDrop := Some (\<lambda>d. 5 < d)\<rparr>" and f = "\<lambda>d. 5 < d"
         and ev = bareEvent and own = "[''a'', ''b'']" and eligible = "[''c'', ''d'']"]
  by (simp add: page_defs)

section \<open>The gate\<close>

lemma carriesFileData_filesTruthy: "carriesFileData ev \<Longrightarrow> filesTruthy ev"
  by (auto simp: carriesFileData_def filesTruthy_def split: option.splits)

text \<open>
  C3, as the code has it. \<open>isDropAllowed\<close> returns false unless \<open>dropEnabled\<close> is
  true and a drag session is active or the event has a transfer object whose
  \<open>files\<close> property is set, be the \<open>FileList\<close> empty or not; with \<open>dropEnabled\<close>
  false it returns false for every session state, zone list and \<open>allowDrop\<close>
  predicate.
\<close>

theorem isDropAllowed_gate:
  "(isDropAllowed w ev \<longrightarrow>
      dropEnabled w \<and> (isDragged (dragDropService w) \<or> filesTruthy ev))
   \<and> (\<not> dropEnabled w \<longrightarrow> \<not> isDropAllowed w ev)"
  by (simp add: isDropAllowed_def)

theorem isDropAllowed_gate_witness:
  "isDropAllowed zoneTarget bareEvent
   \<and> dropEnabled zoneTarget
   \<and> (isDragged (dragDropService zoneTarget) \<or> filesTruthy bareEvent)
   \<and> \<not> dropEnabled (zoneTarget\<lparr>dropEnabled := False\<rparr>)
   \<and> \<not> isDropAllowed (zoneTarget\<lparr>dropEnabled := False\<rparr>) bareEvent"
proof -
  have allowed: "isDropAllowed zoneTarget bareEvent"
    by (simp add: isDropAllowed_def isPresent_def page_defs)
  have disabled: "\<not> dropEnabled (zoneTarget\<lparr>dropEnabled := False\<rparr>)"
    by simp
  show ?thesis
    using allowed disabled
      isDropAllowed_gate [of zoneTarget bareEvent]
      isDropAllowed_gate [of "zoneTarget\<lparr>dropEnabled := False\<rparr>" bareEvent]
    by blast
qed

text \<open>
  The claim as the spec words it fails: a native drag event of a drag without files
  has an empty \<open>FileList\<close>, which is an object and so passes the test of line 168.
  No session is active, the event carries no file, and the drop is allowed.
\<close>

theorem isDropAllowed_gate_counterexample:
  "isDropAllowed openTarget nativeEvent
   \<and> \<not> (dropEnabled openTarget
          \<and> (isDragged (dragDropService openTarget) \<or> carriesFileData nativeEvent))"
  by (simp add: isDropAllowed_def isPresent_def filesTruthy_def carriesFileData_def page_defs)
section \<open>Drag start\<close>

lemma dragStart_enabled:
  "dragEnabled w \<Longrightarrow>
   dragStart w ev =
     w\<lparr>dragDropService := (dragDropService w)\<lparr>allowedDropZones := dropZones w\<rparr>,
       trace := trace w @ [Hook DragStartCallback ev]\<rparr>"
  by (simp add: dragStart_def dragStartCallback_def callback_def)

lemma ondragstart_honoured:
  assumes "dragHandle w = None
           \<or> (\<exists>h. dragHandle w = Some h \<and> contains (document w) h (target w))"
  shows "ondragstart w ev =
           (dragStart w ev,
            (case dataTransfer ev of
               None \<Rightarrow> ev
             | Some dt \<Rightarrow> ev\<lparr>dataTransfer := Some (setData ''text'' '''' dt)\<rparr>))"
  using assms by (auto simp add: ondragstart_def isPresent_def split: option.splits)

text \<open>
  C4, as the code has it. On a drag-start event with \<open>dragEnabled\<close> true and either
  no \<open>dragHandle\<close> or the recorded \<open>target\<close> inside the \<open>dragHandle\<close>: the
  service's \<open>allowedDropZones\<close> become the element's \<open>dropZones\<close>, the
  \<open>dragStartCallback\<close> is the one outcall made, with the event, and, whenever the
  event carries a \<open>dataTransfer\<close> object, \<open>setData('text', '')\<close> marks it
  non-empty; an event without a \<open>dataTransfer\<close> object is left without one.
\<close>

theorem ondragstart_starts_drag:
  assumes "dragEnabled w"
    and "dragHandle w = None
         \<or> (\<exists>h. dragHandle w = Some h \<and> contains (document w) h (target w))"
    and "ondragstart w ev = (w', ev')"
  shows "allowedDropZones (dragDropService w') = dropZones w
         \<and> trace w' = trace w @ [Hook DragStartCallback ev]
         \<and> (dataTransfer ev \<noteq> None \<longrightarrow> transferMarked ev')
         \<and> (dataTransfer ev = None \<longrightarrow> dataTransfer ev' = None)"
proof -
  have w': "w' = w\<lparr>dragDropService := (dragDropService w)\<lparr>allowedDropZones := dropZones w\<rparr>,
                   trace := trace w @ [Hook DragStartCallback ev]\<rparr>"
    using assms(3) ondragstart_honoured [OF assms(2), of ev] dragStart_enabled [OF assms(1), of ev]
    by simp
  have ev': "ev' = (case dataTransfer ev of
                     None \<Rightarrow> ev
                   | Some dt \<Rightarrow> ev\<lparr>dataTransfer := Some (setData ''text'' '''' dt)\<rparr>)"
    using assms(3) ondragstart_honoured [OF assms(2), of ev] by simp
  have zones: "allowedDropZones (dragDropService w') = dropZones w"
    by (simp add: w')
  have calls: "trace w' = trace w @ [Hook DragStartCallback ev]"
    by (simp add: w')
  have marked: "dataTransfer ev \<noteq> None \<longrightarrow> transferMarked ev'"
    by (auto simp add: ev' transferMarked_def setData_def)
  have bare: "dataTransfer ev = None \<longrightarrow> dataTransfer ev' = None"
    by (simp add: ev')
  from zones calls marked bare show ?thesis by blast
qed

theorem ondragstart_starts_drag_witness:
  "allowedDropZones (dragDropService (fst (ondragstart (handleSource\<lparr>target := Some 3\<rparr>) nativeEvent)))
     = [''x'']
   \<and> trace (fst (ondragstart (handleSource\<lparr>target := Some 3\<rparr>) nativeEvent))
     = [Hook DragStartCallback nativeEvent]
   \<and> transferMarked (snd (ondragstart (handleSource\<lparr>target := Some 3\<rparr>) nativeEvent))"
proof -
  have enabled: "dragEnabled (handleSource\<lparr>target := Some 3\<rparr>)"
    by (simp add: page_defs)
  have inside:
    "dragHandle (handleSource\<lparr>target := Some 3\<rparr>) = None
     \<or> (\<exists>h. dragHandle (handleSource\<lparr>target := Some 3\<rparr>) = Some h
            \<and> contains (document (handleSource\<lparr>target := Some 3\<rparr>)) h
                 (target (handleSource\<lparr>target := Some 3\<rparr>)))"
    by (simp add: page_defs contains_def eval_nat_numeral)
  show ?thesis
    using ondragstart_starts_drag [OF enabled inside surjective_pairing, of nativeEvent]
    by (simp add: page_defs)
qed

text \<open>
  The claim without the condition on the event fails: a drag-start event whose
  \<open>dataTransfer\<close> is null passes through the handler with no transfer payload
  marked.
\<close>

theorem ondragstart_starts_drag_counterexample:
  "dragEnabled dragSource \<and> dragHandle dragSource = None
   \<and> \<not> transferMarked (snd (ondragstart dragSource bareEvent))"
  by (simp add: ondragstart_def isPresent_def transferMarked_def page_defs)

text \<open>
  C6. On a drag-start event with a \<open>dragHandle\<close> configured and the recorded
  \<open>target\<close> not contained in it: \<open>preventDefault\<close> is called on the event, no
  callback runs, \<open>allowedDropZones\<close> keeps its value (so it stays empty when it
  was), and nothing else changes: the state is the one before, the event differs in
  \<open>defaultPrevented\<close> only.
\<close>

theorem ondragstart_outside_handle:
  assumes "dragHandle w = Some h" and "\<not> contains (document w) h (target w)"
  shows "ondragstart w ev = (w, ev\<lparr>defaultPrevented := True\<rparr>)
         \<and> hookCalls (trace (fst (ondragstart w ev))) = hookCalls (trace w)
         \<and> allowedDropZones (dragDropService (fst (ondragstart w ev)))
             = allowedDropZones (dragDropService w)"
  using assms by (simp add: ondragstart_def isPresent_def preventDefault_def)

theorem ondragstart_outside_handle_witness:
  "ondragstart (handleSource\<lparr>target := Some 5\<rparr>) nativeEvent
     = (handleSource\<lparr>target := Some 5\<rparr>, nativeEvent\<lparr>defaultPrevented := True\<rparr>)
   \<and> allowedDropZones
        (dragDropService (fst (ondragstart (handleSource\<lparr>target := Some 5\<rparr>) nativeEvent)))
     = []"
proof -
  have handle: "dragHandle (handleSource\<lparr>target := Some 5\<rparr>) = Some 2"
    by (simp add: page_defs)
  have outside:
    "\<not> contains (document (handleSource\<lparr>target := Some 5\<rparr>)) 2
         (target (handleSource\<lparr>target := Some 5\<rparr>))"
    by (simp add: page_defs contains_def eval_nat_numeral)
  have zones: "allowedDropZones (dragDropService (handleSource\<lparr>target := Some 5\<rparr>)) = []"
    by (simp add: page_defs)
  show ?thesis
    using ondragstart_outside_handle [OF handle outside, of nativeEvent] zones
    by simp
qed
section \<open>Drag end\<close>

lemma dragEnd_effect:
  "dragEnd w ev =
     w\<lparr>dragDropService := (dragDropService w)\<lparr>allowedDropZones := []\<rparr>,
       trace := trace w @ [Hook DragEndCallback ev]\<rparr>"
  by (simp add: dragEnd_def dragEndCallback_def callback_def)

lemma ondragend_raises:
  "(ondragend w ev = Inl e) =
     (\<exists>p h. parentElement (document w) (element w) = Some p \<and> dragHelper w = Some h
            \<and> parentElement (document w) h \<noteq> Some p)"
  by (cases e)
     (auto simp add: ondragend_def removeChild_def parentElement_def
           split: option.splits if_splits)

lemma domException_only: "(e :: domException) = NotFoundError"
  by (cases e) simp

lemma ondragend_returns:
  "(\<exists>w'. ondragend w ev = Inr w') =
     (\<not> (\<exists>p h. parentElement (document w) (element w) = Some p \<and> dragHelper w = Some h
              \<and> parentElement (document w) h \<noteq> Some p))"
proof -
  have "(\<exists>w'. ondragend w ev = Inr w') = (ondragend w ev \<noteq> Inl NotFoundError)"
  proof (cases "ondragend w ev")
    case (Inl e)
    then show ?thesis using domException_only [of e] by simp
  next
    case (Inr w')
    then show ?thesis by simp
  qed
  then show ?thesis by (simp only: ondragend_raises)
qed

text \<open>
  When the handler runs to its end, it has cleared \<open>allowedDropZones\<close>, called
  \<open>dragEndCallback\<close> once with the event, and set the cursor of the handle, or of
  the element when there is no handle, to \<open>defaultCursor\<close>.
\<close>

lemma ondragend_completed:
  assumes "ondragend w ev = Inr w'"
  shows "allowedDropZones (dragDropService w') = []
         \<and> trace w' = trace w @ [Hook DragEndCallback ev]
         \<and> styleCursor w' (case dragHandle w of Some h \<Rightarrow> h | None \<Rightarrow> element w)
             = defaultCursor w"
  using assms
  by (auto simp add: ondragend_def dragEnd_effect restoreCursor_def removeChild_def Let_def
           split: option.splits if_splits)

lemma construct_defaultCursor:
  "defaultCursor (construct e svc cfg ref doc styles drg) = config_defaultCursor cfg
   \<and> styleCursor (construct e svc cfg ref doc styles drg) e = config_defaultCursor cfg"
  by (simp add: construct_def)

text \<open>
  C5 does not hold on every drag-end event. The handler never resets \<open>dragHelper\<close>,
  so after a first gesture with a preview node the field still names the node that
  was removed. At the drag-end of the next gesture \<open>removeChild\<close> throws, the
  handler stops at line 81, and \<open>allowedDropZones\<close> keeps the zones of the drag:
  \<open>dragEnd\<close> has not run, no callback was called, no cursor was restored.
\<close>

theorem ondragend_second_gesture_raises:
  "ondragend (fst (ondragstart dragSource nativeEvent)) bareEvent = Inr afterFirstDrag
   \<and> dragHelper afterFirstDrag = Some 4
   \<and> parentElement (document afterFirstDrag) 4 = None
   \<and> allowedDropZones (dragDropService secondDrag) = [''x'']
   \<and> ondragend secondDrag bareEvent = Inl NotFoundError"
proof -
  have first: "\<exists>w. ondragend (fst (ondragstart dragSource nativeEvent)) bareEvent = Inr w"
    by (simp add: ondragend_def ondragstart_def isPresent_def dragStart_def dragStartCallback_def
          callback_def removeChild_def parentElement_def page_defs)
  then have step: "ondragend (fst (ondragstart dragSource nativeEvent)) bareEvent = Inr afterFirstDrag"
    by (auto simp add: afterFirstDrag_def)
  have helper: "dragHelper afterFirstDrag = Some 4"
    and gone: "parentElement (document afterFirstDrag) 4 = None"
    and parent: "parentElement (document afterFirstDrag) (element afterFirstDrag) = Some 0"
    by (simp_all add: afterFirstDrag_def ondragend_def ondragstart_def isPresent_def dragStart_def
          dragStartCallback_def dragEnd_effect restoreCursor_def callback_def
          removeChild_def parentElement_def page_defs)
  have second:
    "secondDrag =
       afterFirstDrag\<lparr>dragDropService :=
           (dragDropService afterFirstDrag)\<lparr>allowedDropZones := dropZones afterFirstDrag\<rparr>,
         trace := trace afterFirstDrag @ [Hook DragStartCallback nativeEvent]\<rparr>"
    by (simp add: secondDrag_def afterFirstDrag_def ondragend_def ondragstart_def isPresent_def dragStart_def
          dragStartCallback_def dragEnd_effect restoreCursor_def callback_def
          removeChild_def parentElement_def page_defs)
  have zones: "allowedDropZones (dragDropService secondDrag) = [''x'']"
    by (simp add: second)
       (simp add: afterFirstDrag_def ondragend_def ondragstart_def isPresent_def dragStart_def
          dragStartCallback_def dragEnd_effect restoreCursor_def callback_def
          removeChild_def parentElement_def page_defs)
  have "\<exists>p h. parentElement (document secondDrag) (element secondDrag) = Some p
          \<and> dragHelper secondDrag = Some h
          \<and> parentElement (document secondDrag) h \<noteq> Some p"
    using helper gone parent by (simp add: second)
  then have "ondragend secondDrag bareEvent = Inl NotFoundError"
    by (simp add: ondragend_raises)
  with step helper gone zones show ?thesis by simp
qed

lemma map_of_filter_removed: "map_of (filter (\<lambda>link. fst link \<noteq> c) doc) c = None"
  by (induction doc) auto

text \<open>
  C8, as the code has it. On a drag-end event with a preview node \<open>dragHelper\<close>
  present: when the element has a parent element and the preview node is a child of
  that parent, the handler removes it from the document; when the element has no
  parent element, the handler leaves the document as it is, the preview node
  included.
\<close>

theorem ondragend_helper_removal:
  assumes "dragHelper w = Some h"
  shows "(parentElement (document w) (element w) = Some p
            \<and> parentElement (document w) h = Some p
          \<longrightarrow> (\<exists>w'. ondragend w ev = Inr w' \<and> parentElement (document w') h = None))
         \<and> (parentElement (document w) (element w) = None
          \<longrightarrow> (\<exists>w'. ondragend w ev = Inr w' \<and> document w' = document w))"
  using assms
  by (auto simp add: ondragend_def removeChild_def parentElement_def dragEnd_effect
        restoreCursor_def Let_def map_of_filter_removed)

theorem ondragend_helper_removal_witness:
  "dragHelper dragSource = Some 4
   \<and> parentElement (document dragSource) (element dragSource) = Some 0
   \<and> parentElement (document dragSource) 4 = Some 0
   \<and> (\<exists>w'. ondragend dragSource bareEvent = Inr w' \<and> parentElement (document w') 4 = None)
   \<and> dragHelper detachedSource = Some 4
   \<and> parentElement (document detachedSource) (element detachedSource) = None
   \<and> (\<exists>w'. ondragend detachedSource bareEvent = Inr w'
          \<and> document w' = document detachedSource)"
proof -
  have helper: "dragHelper dragSource = Some 4"
    by (simp add: page_defs)
  have parents:
    "parentElement (document dragSource) (element dragSource) = Some 0
     \<and> parentElement (document dragSource) 4 = Some 0"
    by (simp add: parentElement_def page_defs)
  have helper': "dragHelper detachedSource = Some 4"
    by (simp add: page_defs)
  have orphan: "parentElement (document detachedSource) (element detachedSource) = None"
    by (simp add: parentElement_def page_defs)
  show ?thesis
    using ondragend_helper_removal [OF helper, of 0 bareEvent]
      ondragend_helper_removal [OF helper', of 0 bareEvent]
      helper parents helper' orphan
    by blast
qed

text \<open>
  The claim fails for an element without a parent element: the test of line 80 is
  false, \<open>removeChild\<close> is not called, and the preview node is still a child of
  node 0 when the handler has finished.
\<close>

theorem ondragend_helper_removal_counterexample:
  "dragHelper detachedSource = Some 4
   \<and> parentElement (document detachedSource) (element detachedSource) = None
   \<and> ondragend detachedSource bareEvent
       = Inr (restoreCursor (dragEnd detachedSource bareEvent))
   \<and> parentElement (document (restoreCursor (dragEnd detachedSource bareEvent))) 4 = Some 0"
  by (simp add: ondragend_def parentElement_def dragEnd_effect restoreCursor_def page_defs)
section \<open>The four handlers of a drop target\<close>

lemma hookCalls_append: "hookCalls (xs @ ys) = hookCalls xs @ hookCalls ys"
  by (induction xs rule: hookCalls.induct) simp_all

lemma ondragenter_effect:
  "ondragenter w ev =
     (if isDropAllowed w ev then (w\<lparr>trace := trace w @ [Hook DragEnterCallback ev]\<rparr>, ev)
      else (w, ev))"
  by (simp add: ondragenter_def dragEnter_def dragEnterCallback_def callback_def)

lemma ondragleave_effect:
  "ondragleave w ev =
     (if isDropAllowed w ev then (w\<lparr>trace := trace w @ [Hook DragLeaveCallback ev]\<rparr>, ev)
      else (w, ev))"
  by (simp add: ondragleave_def dragLeave_def dragLeaveCallback_def callback_def)

lemma dragOver_effect:
  "dragOver w ev =
     (if isDropAllowed w ev then
        (w\<lparr>trace := trace w @ [Hook DragOverCallback (ev\<lparr>defaultPrevented := True\<rparr>)]\<rparr>,
         ev\<lparr>defaultPrevented := True\<rparr>)
      else (w, ev))"
  by (simp add: dragOver_def dragOverCallback_def callback_def hasPreventDefault_def
        preventDefault_def Let_def)

lemma ondrop_effect:
  "ondrop w ev =
     (if isDropAllowed w ev then
        (w\<lparr>timers := timers w @ [(250, RefreshView)],
           trace := trace w
             @ [Hook DropCallback (ev\<lparr>defaultPrevented := True, propagationStopped := True\<rparr>),
                SetTimeout 250]\<rparr>,
         ev\<lparr>defaultPrevented := True, propagationStopped := True\<rparr>)
      else (w, ev))"
  by (simp add: ondrop_def drop_event_def dropCallback_def callback_def detectChanges_def
        setTimeout_def preventAndStop_def hasPreventDefault_def hasStopPropagation_def
        preventDefault_def stopPropagation_def Let_def)

text \<open>
  C7. Each of the handlers of \<open>dragenter\<close>, \<open>dragover\<close>, \<open>dragleave\<close> and \<open>drop\<close>
  adds to the callbacks called so far its own callback, once, when
  \<open>isDropAllowed\<close> holds for the event, and none when it does not. A drop that
  passes calls \<open>preventDefault\<close> and \<open>stopPropagation\<close>, then \<open>dropCallback\<close> (which
  sees the event with both already done), then schedules the refresh with
  \<open>setTimeout\<close>; a drop that fails leaves state and event as they were, so no
  callback is called and no refresh scheduled.
\<close>

theorem target_hooks_gated:
  "hookCalls (trace (fst (ondragenter w ev)))
     = hookCalls (trace w) @ (if isDropAllowed w ev then [(DragEnterCallback, ev)] else [])
   \<and> hookCalls (trace (fst (ondragover w ev)))
     = hookCalls (trace w)
       @ (if isDropAllowed w ev then [(DragOverCallback, ev\<lparr>defaultPrevented := True\<rparr>)]
          else [])
   \<and> hookCalls (trace (fst (ondragleave w ev)))
     = hookCalls (trace w) @ (if isDropAllowed w ev then [(DragLeaveCallback, ev)] else [])
   \<and> hookCalls (trace (fst (ondrop w ev)))
     = hookCalls (trace w)
       @ (if isDropAllowed w ev
          then [(DropCallback, ev\<lparr>defaultPrevented := True, propagationStopped := True\<rparr>)]
          else [])
   \<and> (isDropAllowed w ev \<longrightarrow>
        snd (ondrop w ev) = ev\<lparr>defaultPrevented := True, propagationStopped := True\<rparr>
        \<and> trace (fst (ondrop w ev))
            = trace w @ [Hook DropCallback (snd (ondrop w ev)), SetTimeout 250]
        \<and> timers (fst (ondrop w ev)) = timers w @ [(250, RefreshView)])
   \<and> (\<not> isDropAllowed w ev \<longrightarrow> ondrop w ev = (w, ev))"
proof -
  have enter:
    "hookCalls (trace (fst (ondragenter w ev)))
       = hookCalls (trace w) @ (if isDropAllowed w ev then [(DragEnterCallback, ev)] else [])"
    by (simp add: ondragenter_effect hookCalls_append)
  have over:
    "hookCalls (trace (fst (ondragover w ev)))
       = hookCalls (trace w)
         @ (if isDropAllowed w ev then [(DragOverCallback, ev\<lparr>defaultPrevented := True\<rparr>)]
            else [])"
    by (simp add: ondragover_def dragOver_effect hookCalls_append)
  have leave:
    "hookCalls (trace (fst (ondragleave w ev)))
       = hookCalls (trace w) @ (if isDropAllowed w ev then [(DragLeaveCallback, ev)] else [])"
    by (simp add: ondragleave_effect hookCalls_append)
  have dropped:
    "hookCalls (trace (fst (ondrop w ev)))
       = hookCalls (trace w)
         @ (if isDropAllowed w ev
            then [(DropCallback, ev\<lparr>defaultPrevented := True, propagationStopped := True\<rparr>)]
            else [])"
    by (simp add: ondrop_effect hookCalls_append)
  have passed:
    "isDropAllowed w ev \<longrightarrow>
       snd (ondrop w ev) = ev\<lparr>defaultPrevented := True, propagationStopped := True\<rparr>
       \<and> trace (fst (ondrop w ev))
           = trace w @ [Hook DropCallback (snd (ondrop w ev)), SetTimeout 250]
       \<and> timers (fst (ondrop w ev)) = timers w @ [(250, RefreshView)]"
    by (simp add: ondrop_effect)
  have failed: "\<not> isDropAllowed w ev \<longrightarrow> ondrop w ev = (w, ev)"
    by (simp add: ondrop_effect)
  from enter over leave dropped passed failed show ?thesis by blast
qed

theorem target_hooks_gated_witness:
  "isDropAllowed zoneTarget nativeEvent
   \<and> hookCalls (trace (fst (ondrop zoneTarget nativeEvent)))
       = [(DropCallback, nativeEvent\<lparr>defaultPrevented := True, propagationStopped := True\<rparr>)]
   \<and> timers (fst (ondrop zoneTarget nativeEvent)) = [(250, RefreshView)]
   \<and> \<not> isDropAllowed (zoneTarget\<lparr>dropEnabled := False\<rparr>) nativeEvent
   \<and> ondrop (zoneTarget\<lparr>dropEnabled := False\<rparr>) nativeEvent
       = (zoneTarget\<lparr>dropEnabled := False\<rparr>, nativeEvent)"
proof -
  have allowed: "isDropAllowed zoneTarget nativeEvent"
    by (simp add: isDropAllowed_def isPresent_def page_defs)
  have refused: "\<not> isDropAllowed (zoneTarget\<lparr>dropEnabled := False\<rparr>) nativeEvent"
    by (simp add: isDropAllowed_def)
  have fresh: "trace zoneTarget = [] \<and> timers zoneTarget = []"
    by (simp add: page_defs)
  show ?thesis
    using allowed refused fresh
      target_hooks_gated [of zoneTarget nativeEvent]
      target_hooks_gated [of "zoneTarget\<lparr>dropEnabled := False\<rparr>" nativeEvent]
    by simp
qed

section \<open>The deferred refresh\<close>

text \<open>
  The test \<open>this.cdr &&\<close> of line 116: without a view reference the task does
  nothing.
\<close>

lemma refreshView_without_view: "cdr w = None \<Longrightarrow> refreshView w = w"
  by (simp add: refreshView_def)

lemma timers_refreshView: "timers (refreshView x) = timers x"
  by (simp add: refreshView_def split: option.splits)

lemma timers_run: "timers (fold (\<lambda>entry. runTask (snd entry)) due x) = timers x"
proof (induction due arbitrary: x)
  case Nil
  then show ?case by simp
next
  case (Cons entry due)
  then show ?case by (cases "snd entry") (simp add: timers_refreshView)
qed

lemma timers_elapse:
  "timers (elapse d x) =
     map (\<lambda>entry. (fst entry - d, snd entry)) (filter (\<lambda>entry. \<not> fst entry \<le> d) (timers x))"
  by (simp add: elapse_def timers_run)

lemma elapse_single:
  "timers w = [(n, RefreshView)] \<Longrightarrow>
   elapse d w =
     (if n \<le> d then refreshView (w\<lparr>timers := []\<rparr>) else w\<lparr>timers := [(n - d, RefreshView)]\<rparr>)"
  by (simp add: elapse_def)

text \<open>
  C9. A drop that passes adds one timer of 250 ms and makes no call of
  \<open>cdr.detectChanges()\<close> during the dispatch. While less than 250 ms have
  passed the task is still waiting, with the rest of its delay. When the task runs,
  with \<open>v\<close> the owning view as it is then, it calls \<open>cdr.detectChanges()\<close> if
  \<open>v\<close> is not destroyed, and if \<open>v\<close> is destroyed it changes nothing and
  raises nothing. On a directive with no other timer pending, the state after 250
  ms is the state after the drop with the timer gone and, for a view that is not
  destroyed, the one call of \<open>cdr.detectChanges()\<close> added.
\<close>

theorem deferred_refresh:
  assumes "isDropAllowed w ev" and "w' = fst (ondrop w ev)"
  shows "timers w' = timers w @ [(250, RefreshView)]
         \<and> CdrDetectChanges \<notin> set (drop (length (trace w)) (trace w'))
         \<and> (d < 250 \<longrightarrow> timers (elapse d w') = timers (elapse d w) @ [(250 - d, RefreshView)])
         \<and> (cdr x = Some v \<longrightarrow>
              runTask RefreshView x
                = (if destroyed v then x else x\<lparr>trace := trace x @ [CdrDetectChanges]\<rparr>))
         \<and> (timers w = [] \<longrightarrow>
              elapse 250 (w'\<lparr>cdr := Some v\<rparr>)
                = (if destroyed v then w'\<lparr>cdr := Some v, timers := []\<rparr>
                   else w'\<lparr>cdr := Some v, timers := [],
                           trace := trace w' @ [CdrDetectChanges]\<rparr>))"
proof -
  have w': "w' = w\<lparr>timers := timers w @ [(250, RefreshView)],
                   trace := trace w
                     @ [Hook DropCallback (ev\<lparr>defaultPrevented := True, propagationStopped := True\<rparr>),
                        SetTimeout 250]\<rparr>"
    using assms by (simp add: ondrop_effect)
  have pending: "timers w' = timers w @ [(250, RefreshView)]"
    by (simp add: w')
  have quiet: "CdrDetectChanges \<notin> set (drop (length (trace w)) (trace w'))"
    by (simp add: w')
  have waiting:
    "d < 250 \<longrightarrow> timers (elapse d w') = timers (elapse d w) @ [(250 - d, RefreshView)]"
    by (simp add: timers_elapse pending)
  have task:
    "cdr x = Some v \<longrightarrow>
       runTask RefreshView x
         = (if destroyed v then x else x\<lparr>trace := trace x @ [CdrDetectChanges]\<rparr>)"
    by (simp add: refreshView_def)
  have run:
    "timers w = [] \<longrightarrow>
       elapse 250 (w'\<lparr>cdr := Some v\<rparr>)
         = (if destroyed v then w'\<lparr>cdr := Some v, timers := []\<rparr>
            else w'\<lparr>cdr := Some v, timers := [], trace := trace w' @ [CdrDetectChanges]\<rparr>)"
  proof
    assume "timers w = []"
    then have "timers (w'\<lparr>cdr := Some v\<rparr>) = [(250, RefreshView)]"
      by (simp add: pending)
    then show "elapse 250 (w'\<lparr>cdr := Some v\<rparr>)
         = (if destroyed v then w'\<lparr>cdr := Some v, timers := []\<rparr>
            else w'\<lparr>cdr := Some v, timers := [], trace := trace w' @ [CdrDetectChanges]\<rparr>)"
      using elapse_single [of "w'\<lparr>cdr := Some v\<rparr>" 250 250] by (simp add: refreshView_def)
  qed
  show ?thesis
    by (rule conjI [OF pending conjI [OF quiet conjI [OF waiting conjI [OF task run]]]])
qed

theorem deferred_refresh_witness:
  "isDropAllowed zoneTarget nativeEvent
   \<and> timers (fst (ondrop zoneTarget nativeEvent)) = [(250, RefreshView)]
   \<and> timers (elapse 100 (fst (ondrop zoneTarget nativeEvent))) = [(150, RefreshView)]
   \<and> runTask RefreshView (zoneTarget\<lparr>cdr := Some deadView\<rparr>)
       = zoneTarget\<lparr>cdr := Some deadView\<rparr>
   \<and> runTask RefreshView zoneTarget
       = zoneTarget\<lparr>trace := trace zoneTarget @ [CdrDetectChanges]\<rparr>
   \<and> elapse 250 ((fst (ondrop zoneTarget nativeEvent))\<lparr>cdr := Some deadView\<rparr>)
       = (fst (ondrop zoneTarget nativeEvent))\<lparr>cdr := Some deadView, timers := []\<rparr>
   \<and> elapse 250 ((fst (ondrop zoneTarget nativeEvent))\<lparr>cdr := Some liveView\<rparr>)
       = (fst (ondrop zoneTarget nativeEvent))
           \<lparr>cdr := Some liveView, timers := [],
             trace := trace (fst (ondrop zoneTarget nativeEvent)) @ [CdrDetectChanges]\<rparr>"
proof -
  have allowed: "isDropAllowed zoneTarget nativeEvent"
    by (simp add: isDropAllowed_def isPresent_def page_defs)
  have idle: "timers zoneTarget = []"
    by (simp add: page_defs)
  have waited: "timers (elapse 100 zoneTarget) = []"
    by (simp add: timers_elapse idle)
  have dead: "destroyed deadView" and live: "\<not> destroyed liveView"
    by (simp_all add: page_defs)
  have view_dead: "cdr (zoneTarget\<lparr>cdr := Some deadView\<rparr>) = Some deadView"
    by simp
  have view_live: "cdr zoneTarget = Some liveView"
    by (simp add: zoneTarget_def freshDirective_def construct_def)
  note at_dead =
    deferred_refresh
      [OF allowed refl, of 100 "zoneTarget\<lparr>cdr := Some deadView\<rparr>" deadView]
  note at_live = deferred_refresh [OF allowed refl, of 100 zoneTarget liveView]
  have pending: "timers (fst (ondrop zoneTarget nativeEvent)) = [(250, RefreshView)]"
    using at_dead [THEN conjunct1] idle by simp
  have waiting: "timers (elapse 100 (fst (ondrop zoneTarget nativeEvent))) = [(150, RefreshView)]"
    using at_dead [THEN conjunct2, THEN conjunct2, THEN conjunct1] waited by simp
  have task_dead:
    "runTask RefreshView (zoneTarget\<lparr>cdr := Some deadView\<rparr>)
       = zoneTarget\<lparr>cdr := Some deadView\<rparr>"
    using at_dead [THEN conjunct2, THEN conjunct2, THEN conjunct2, THEN conjunct1, THEN mp,
                   OF view_dead]
    by (simp only: dead if_True)
  have task_live:
    "runTask RefreshView zoneTarget
       = zoneTarget\<lparr>trace := trace zoneTarget @ [CdrDetectChanges]\<rparr>"
    using at_live [THEN conjunct2, THEN conjunct2, THEN conjunct2, THEN conjunct1, THEN mp,
                   OF view_live]
    by (simp only: live if_False)
  have run_dead:
    "elapse 250 ((fst (ondrop zoneTarget nativeEvent))\<lparr>cdr := Some deadView\<rparr>)
       = (fst (ondrop zoneTarget nativeEvent))\<lparr>cdr := Some deadView, timers := []\<rparr>"
    using at_dead [THEN conjunct2, THEN conjunct2, THEN conjunct2, THEN conjunct2, THEN mp, OF idle]
    by (simp only: dead if_True)
  have run_live:
    "elapse 250 ((fst (ondrop zoneTarget nativeEvent))\<lparr>cdr := Some liveView\<rparr>)
       = (fst (ondrop zoneTarget nativeEvent))
           \<lparr>cdr := Some liveView, timers := [],
             trace := trace (fst (ondrop zoneTarget nativeEvent)) @ [CdrDetectChanges]\<rparr>"
    using at_live [THEN conjunct2, THEN conjunct2, THEN conjunct2, THEN conjunct2, THEN mp, OF idle]
    by (simp only: live if_False)
  show ?thesis
    by (rule conjI [OF allowed conjI [OF pending conjI [OF waiting
          conjI [OF task_dead conjI [OF task_live conjI [OF run_dead run_live]]]]]])
qed

section \<open>Drag over\<close>

text \<open>
  C10. For every drag-over event the handler returns false and, when the event
  has a \<open>dataTransfer\<close> object, sets its \<open>dropEffect\<close> to the configured name and
  calls \<open>setData('text', '')\<close> on it, whether \<open>isDropAllowed\<close> holds or not. When
  it does not hold, the state is unchanged and the event differs in its
  \<open>dataTransfer\<close> only. In every case the state after the handler differs from the
  state before in the trace of outcalls at most: service and element are as
  before.
\<close>

theorem ondragover_native_effects:
  "snd (snd (ondragover w ev)) = False
   \<and> dataTransfer (fst (snd (ondragover w ev)))
       = map_option
           (\<lambda>dt. dt\<lparr>dropEffect := config_dropEffect_name (config w),
                    written := written dt @ [(''text'', '''')]\<rparr>)
           (dataTransfer ev)
   \<and> (\<not> isDropAllowed w ev \<longrightarrow>
        fst (ondragover w ev) = w
        \<and> fst (snd (ondragover w ev))
            = ev\<lparr>dataTransfer := dataTransfer (fst (snd (ondragover w ev)))\<rparr>)
   \<and> (fst (ondragover w ev))\<lparr>trace := trace w\<rparr> = w"
proof -
  have returned: "snd (snd (ondragover w ev)) = False"
    by (simp add: ondragover_def split: prod.splits)
  have transfer:
    "dataTransfer (fst (snd (ondragover w ev)))
       = map_option
           (\<lambda>dt. dt\<lparr>dropEffect := config_dropEffect_name (config w),
                    written := written dt @ [(''text'', '''')]\<rparr>)
           (dataTransfer ev)"
    by (cases "dataTransfer ev") (simp_all add: ondragover_def dragOver_effect isPresent_def setData_def)
  have refused:
    "\<not> isDropAllowed w ev \<longrightarrow>
       fst (ondragover w ev) = w
       \<and> fst (snd (ondragover w ev))
           = ev\<lparr>dataTransfer := dataTransfer (fst (snd (ondragover w ev)))\<rparr>"
    by (simp add: ondragover_def dragOver_effect isPresent_def)
  have frame: "(fst (ondragover w ev))\<lparr>trace := trace w\<rparr> = w"
    by (simp add: ondragover_def dragOver_effect)
  from returned transfer refused frame show ?thesis by blast
qed

theorem ondragover_native_effects_witness:
  "\<not> isDropAllowed (zoneTarget\<lparr>dropEnabled := False\<rparr>) nativeEvent
   \<and> fst (ondragover (zoneTarget\<lparr>dropEnabled := False\<rparr>) nativeEvent)
       = zoneTarget\<lparr>dropEnabled := False\<rparr>
   \<and> dataTransfer (fst (snd (ondragover (zoneTarget\<lparr>dropEnabled := False\<rparr>) nativeEvent)))
       = Some \<lparr>dropEffect = ''move'', written = [(''text'', '''')], files = Some []\<rparr>
   \<and> snd (snd (ondragover (zoneTarget\<lparr>dropEnabled := False\<rparr>) nativeEvent)) = False"
proof -
  have refused: "\<not> isDropAllowed (zoneTarget\<lparr>dropEnabled := False\<rparr>) nativeEvent"
    by (simp add: isDropAllowed_def)
  have given:
    "config (zoneTarget\<lparr>dropEnabled := False\<rparr>) = pageConfig
     \<and> dataTransfer nativeEvent = Some emptyTransfer"
    by (simp add: zoneTarget_def freshDirective_def construct_def nativeEvent_def)
  show ?thesis
    using refused given
      ondragover_native_effects [of "zoneTarget\<lparr>dropEnabled := False\<rparr>" nativeEvent]
    by (simp add: pageConfig_def emptyTransfer_def)
qed

end
